theory Spec2Isabelle
  imports Main "HOL-Library.Char_ord" "HOL-Library.List_Lexorder" "HOL-Library.Product_Lexorder"
    "HOL-Library.Multiset"
begin

section \<open>Data model (DB.hpp)\<close>

text \<open>
  \<^verbatim>\<open>struct Contact { int id; std::string first_name, last_name, email, mobile; };\<close>
  The id is never computed with in DB.cpp (it is bound, read back and printed only), so it is
  an \<open>int\<close>; a \<open>std::string\<close> is a list of 8-bit characters. The field names are constants
  from here on, so a parameter that DB.cpp calls \<open>email\<close> or \<open>mobile\<close> (or \<open>last\<close>, a list
  function here) is written with a prime.
\<close>

record Contact =
  contact_id :: int
  first_name :: string
  last_name :: string
  email :: string
  mobile :: string

text \<open>
  The two exception classes that travel through DB.cpp, each with its \<open>what()\<close> text:
  \<open>DBException\<close> (DB.hpp) and the connector's \<open>sql::SQLException\<close>. Neither derives from
  the other, so \<open>catch (const sql::SQLException&)\<close> lets a \<open>DBException\<close> pass.
\<close>

datatype exn = DBException string | SQLException string

subsection \<open>\<open>std::to_string(int)\<close>\<close>

definition digit_char :: "nat \<Rightarrow> char" where
  "digit_char d = ''0123456789'' ! (d mod 10)"

function digits :: "nat \<Rightarrow> string" where
  "digits n = (if n < 10 then [digit_char n] else digits (n div 10) @ [digit_char (n mod 10)])"
  by pat_completeness auto
termination
  by (relation "measure (\<lambda>n. n)") auto

declare digits.simps [simp del]

definition to_string :: "int \<Rightarrow> string" where
  "to_string i = (if i < 0 then CHR ''-'' # digits (nat (- i)) else digits (nat i))"

section \<open>Column allowlist (\<open>DB::sanitize_column_name\<close>)\<close>

text \<open>
  \<^verbatim>\<open>static const std::vector<std::string> valid_columns =
      { "id", "first_name", "last_name", "email", "mobile" };\<close>
\<close>

definition valid_columns :: "string list" where
  "valid_columns = [''id'', ''first_name'', ''last_name'', ''email'', ''mobile'']"

text \<open>
  \<^verbatim>\<open>if (std::find(valid_columns.begin(), valid_columns.end(), column) != valid_columns.end())
      return column;
  return "last_name";\<close>
\<close>

definition sanitize_column_name :: "string \<Rightarrow> string" where
  "sanitize_column_name column =
     (if column \<in> set valid_columns then column else ''last_name'')"

text \<open>
  The statement text that \<open>get_contacts_sorted\<close> builds by concatenation and prepares:
  \<^verbatim>\<open>std::string safe_column = sanitize_column_name(column);
  std::string order = ascending ? "ASC" : "DESC";
  std::string query = "SELECT id, first_name, last_name, email, mobile FROM contacts "
                      "ORDER BY " + safe_column + " " + order;\<close>
\<close>

definition sorted_query :: "string \<Rightarrow> bool \<Rightarrow> string" where
  "sorted_query column ascending =
     ''SELECT id, first_name, last_name, email, mobile FROM contacts '' @
     ''ORDER BY '' @ sanitize_column_name column @ '' '' @
     (if ascending then ''ASC'' else ''DESC'')"

section \<open>Email validation (\<open>DB::is_valid_email\<close>)\<close>

subsection \<open>Regular expressions and \<open>std::regex_match\<close>\<close>

text \<open>
  The fragment of ECMAScript regular expressions that the pattern of \<open>is_valid_email\<close> is
  written in: bracket expressions made of ranges and single characters, literal characters,
  concatenation, \<open>+\<close> and \<open>{n,}\<close>. \<open>Nothing\<close>, \<open>Epsilon\<close>, \<open>Either\<close> and \<open>Star\<close> are what
  the matcher needs for its intermediate expressions.
\<close>

datatype item = Range char char | Single char

datatype regex =
    Nothing
  | Epsilon
  | Bracket "item list"
  | Lit char
  | Concat regex regex
  | Either regex regex
  | Star regex

text \<open>\<open>r+\<close> is one \<open>r\<close> and then any number of them; \<open>r{n,}\<close> is \<open>n\<close> of them and then any number.\<close>

definition Plus :: "regex \<Rightarrow> regex" where
  "Plus r = Concat r (Star r)"

fun AtLeast :: "nat \<Rightarrow> regex \<Rightarrow> regex" where
  "AtLeast 0 r = Star r"
| "AtLeast (Suc n) r = Concat r (AtLeast n r)"

text \<open>
  A range of a bracket expression compares character codes (no \<open>icase\<close>, no \<open>collate\<close> flag
  is given to the \<open>std::regex\<close>).
\<close>

fun item_has :: "item \<Rightarrow> char \<Rightarrow> bool" where
  "item_has (Range lo hi) c = (lo \<le> c \<and> c \<le> hi)"
| "item_has (Single d) c = (c = d)"

definition bracket_has :: "item list \<Rightarrow> char \<Rightarrow> bool" where
  "bracket_has items c = list_ex (\<lambda>i. item_has i c) items"

text \<open>
  \<open>std::regex_match(s, r)\<close> answers whether the whole of \<open>s\<close> is matched by \<open>r\<close>. The model
  decides it by consuming \<open>s\<close> one character at a time: \<open>deriv c r\<close> matches what \<open>r\<close> matches
  after a leading \<open>c\<close>, and the expression left at the end must match the empty string.
\<close>

fun nullable :: "regex \<Rightarrow> bool" where
  "nullable Nothing = False"
| "nullable Epsilon = True"
| "nullable (Bracket items) = False"
| "nullable (Lit d) = False"
| "nullable (Concat r s) = (nullable r \<and> nullable s)"
| "nullable (Either r s) = (nullable r \<or> nullable s)"
| "nullable (Star r) = True"

fun deriv :: "char \<Rightarrow> regex \<Rightarrow> regex" where
  "deriv c Nothing = Nothing"
| "deriv c Epsilon = Nothing"
| "deriv c (Bracket items) = (if bracket_has items c then Epsilon else Nothing)"
| "deriv c (Lit d) = (if c = d then Epsilon else Nothing)"
| "deriv c (Concat r s) =
     (if nullable r then Either (Concat (deriv c r) s) (deriv c s)
      else Concat (deriv c r) s)"
| "deriv c (Either r s) = Either (deriv c r) (deriv c s)"
| "deriv c (Star r) = Concat (deriv c r) (Star r)"

definition regex_match :: "string \<Rightarrow> regex \<Rightarrow> bool" where
  "regex_match s r = nullable (fold deriv s r)"

text \<open>
  The reference meaning of a regular expression, as a relation between expressions and the
  strings they match; the matcher is proved against it below.
\<close>

inductive denotes :: "regex \<Rightarrow> string \<Rightarrow> bool" where
  d_eps: "denotes Epsilon []"
| d_bracket: "bracket_has items c \<Longrightarrow> denotes (Bracket items) [c]"
| d_lit: "denotes (Lit c) [c]"
| d_concat: "denotes r u \<Longrightarrow> denotes s v \<Longrightarrow> denotes (Concat r s) (u @ v)"
| d_left: "denotes r w \<Longrightarrow> denotes (Either r s) w"
| d_right: "denotes s w \<Longrightarrow> denotes (Either r s) w"
| d_star_nil: "denotes (Star r) []"
| d_star_step: "denotes r u \<Longrightarrow> denotes (Star r) v \<Longrightarrow> denotes (Star r) (u @ v)"

subsection \<open>The pattern\<close>

text \<open>
  \<^verbatim>\<open>const std::regex pattern(R"([a-zA-Z0-9._%+-]+@[a-zA-Z0-9.-]+\.[a-zA-Z]{2,})");
  return std::regex_match(email, pattern);\<close>
\<close>

definition email_pattern :: regex where
  "email_pattern =
     Concat (Plus (Bracket [Range CHR ''a'' CHR ''z'', Range CHR ''A'' CHR ''Z'',
                            Range CHR ''0'' CHR ''9'', Single CHR ''.'', Single CHR ''_'',
                            Single CHR ''%'', Single CHR ''+'', Single CHR ''-'']))
    (Concat (Lit CHR ''@'')
    (Concat (Plus (Bracket [Range CHR ''a'' CHR ''z'', Range CHR ''A'' CHR ''Z'',
                            Range CHR ''0'' CHR ''9'', Single CHR ''.'', Single CHR ''-'']))
    (Concat (Lit CHR ''.'')
            (AtLeast 2 (Bracket [Range CHR ''a'' CHR ''z'', Range CHR ''A'' CHR ''Z''])))))"

definition is_valid_email :: "string \<Rightarrow> bool" where
  "is_valid_email s = regex_match s email_pattern"

text \<open>
  The email check of the write path, \<open>insert_contact\<close> and \<open>update_contact\<close> alike:
  \<^verbatim>\<open>if (!email.empty() && !is_valid_email(email)) throw DBException("Invalid email format");\<close>
  \<open>validateEmail\<close> (the spec's name) holds when that guard lets the email pass.
\<close>

definition validateEmail :: "string \<Rightarrow> bool" where
  "validateEmail s = (\<not> (s \<noteq> [] \<and> \<not> is_valid_email s))"

subsection \<open>The email shape as the specification words it\<close>

text \<open>
  A local part of ASCII letters, digits and \<open>._%+-\<close>, then \<open>@\<close>, then a domain of letters,
  digits, hyphens and separating dots, then a dot and a top-level domain of at least two
  letters. This definition follows the specification's wording, not the pattern above; the
  ASCII letters are the codes 65 to 90 and 97 to 122, the digits the codes 48 to 57.
\<close>

definition ascii_letter :: "char \<Rightarrow> bool" where
  "ascii_letter c = (of_char c \<in> {65 .. 90 :: nat} \<union> {97 .. 122})"

definition ascii_digit :: "char \<Rightarrow> bool" where
  "ascii_digit c = (of_char c \<in> {48 .. 57 :: nat})"

definition local_char :: "char \<Rightarrow> bool" where
  "local_char c = (ascii_letter c \<or> ascii_digit c \<or> c \<in> set ''._%+-'')"

definition domain_char :: "char \<Rightarrow> bool" where
  "domain_char c = (ascii_letter c \<or> ascii_digit c \<or> c \<in> set ''.-'')"

definition email_shape :: "string \<Rightarrow> bool" where
  "email_shape s =
     (\<exists>local domain tld.
        s = local @ ''@'' @ domain @ ''.'' @ tld
        \<and> local \<noteq> [] \<and> list_all local_char local
        \<and> domain \<noteq> [] \<and> list_all domain_char domain
        \<and> 2 \<le> length tld \<and> list_all ascii_letter tld)"

section \<open>The connection (\<open>conn_\<close>) and the store behind it\<close>

text \<open>
  DB.cpp reaches the MariaDB server through \<open>conn_\<close> only: \<open>isValid\<close>, \<open>setAutoCommit\<close>,
  \<open>commit\<close>, \<open>rollback\<close>, \<open>prepareStatement\<close>, and on a statement \<open>executeUpdate\<close> and
  \<open>executeQuery\<close>. A \<open>request\<close> names one such call with the parameters bound to it.
\<close>

datatype request =
    SetAutoCommit bool
  | Commit
  | Rollback
  | Prepare string
  | Select1
  | InsertRow string string string string
  | UpdateRow string string string string int
  | DeleteRow int
  | SelectById int
  | SelectAll
  | SelectLike string
  | CountRows

text \<open>
  The state of the connection and of the \<open>contacts\<close> table as the session sees it.
  \<^item> \<open>isValid\<close>: \<open>conn_\<close> is set and \<open>conn_->isValid()\<close> answers true.
  \<^item> \<open>auto_commit\<close>: the session's auto-commit mode.
  \<^item> \<open>table\<close>: the rows the session sees, in storage order; \<open>committed\<close>: the rows as of
    the last commit, which a rollback returns to.
  \<^item> \<open>auto_increment\<close>: the id the next inserted row gets (\<open>id INT AUTO_INCREMENT\<close>); a
    rollback does not give ids back.
  What DB.cpp does not determine about the server is a parameter, the same for all theorems:
  \<^item> \<open>refuses rq\<close>: the text of the \<open>sql::SQLException\<close> the call \<open>rq\<close> ends in, if the
    server or the transport fails it (a constraint violation, a lost link), else \<open>None\<close>;
  \<^item> \<open>found_rows\<close>: whether an \<open>UPDATE\<close> reports the rows it matched or only those it changed;
  \<^item> \<open>collation\<close>: the sort key of a text value under the columns' collation;
  \<^item> \<open>sql_like v p\<close>: the server's \<open>v LIKE p\<close>.
  A row that the server accepts is stored as bound.
\<close>

record Connection =
  isValid :: bool
  auto_commit :: bool
  table :: "Contact list"
  committed :: "Contact list"
  auto_increment :: int
  refuses :: "request \<Rightarrow> string option"
  found_rows :: bool
  collation :: "string \<Rightarrow> string"
  sql_like :: "string \<Rightarrow> string \<Rightarrow> bool"

text \<open>A call that changes the connection returns its outcome and the connection after it.\<close>

type_synonym 'a action = "Connection \<Rightarrow> (exn + 'a) \<times> Connection"

definition ret :: "'a \<Rightarrow> 'a action" where
  "ret x c = (Inr x, c)"

definition throw :: "exn \<Rightarrow> 'a action" where
  "throw e c = (Inl e, c)"

definition and_then :: "'a action \<Rightarrow> ('a \<Rightarrow> 'b action) \<Rightarrow> 'b action" where
  "and_then m k c = (case m c of (Inl e, c') \<Rightarrow> (Inl e, c') | (Inr x, c') \<Rightarrow> k x c')"

text \<open>\<^verbatim>\<open>try { m } catch (const sql::SQLException& e) { h(e.what()) }\<close>\<close>

definition catch_sql :: "'a action \<Rightarrow> (string \<Rightarrow> 'a action) \<Rightarrow> 'a action" where
  "catch_sql m h c =
     (case m c of
        (Inl (SQLException msg), c') \<Rightarrow> h msg c'
      | (Inl (DBException msg), c') \<Rightarrow> (Inl (DBException msg), c')
      | (Inr x, c') \<Rightarrow> (Inr x, c'))"

subsection \<open>The connector's calls\<close>

definition served :: "request \<Rightarrow> unit action" where
  "served rq c =
     (case refuses c rq of Some msg \<Rightarrow> (Inl (SQLException msg), c) | None \<Rightarrow> (Inr (), c))"

text \<open>Enabling auto-commit commits what is pending.\<close>

definition setAutoCommit :: "bool \<Rightarrow> unit action" where
  "setAutoCommit b =
     and_then (served (SetAutoCommit b))
       (\<lambda>_ c. (Inr (), c\<lparr>auto_commit := b,
                          committed := (if b then table c else committed c)\<rparr>))"

definition commit :: "unit action" where
  "commit = and_then (served Commit) (\<lambda>_ c. (Inr (), c\<lparr>committed := table c\<rparr>))"

definition rollback :: "unit action" where
  "rollback = and_then (served Rollback) (\<lambda>_ c. (Inr (), c\<lparr>table := committed c\<rparr>))"

definition prepareStatement :: "string \<Rightarrow> unit action" where
  "prepareStatement sql = served (Prepare sql)"

text \<open>A write reaches the committed rows at once when auto-commit is on.\<close>

definition write_table :: "Contact list \<Rightarrow> Connection \<Rightarrow> Connection" where
  "write_table rows c =
     c\<lparr>table := rows, committed := (if auto_commit c then rows else committed c)\<rparr>"

definition set_fields :: "string \<Rightarrow> string \<Rightarrow> string \<Rightarrow> string \<Rightarrow> Contact \<Rightarrow> Contact" where
  "set_fields f l e m r = r\<lparr>first_name := f, last_name := l, email := e, mobile := m\<rparr>"

text \<open>
  \<open>executeUpdate\<close> of the three writing statements, with the number of affected rows:
  \<^item> \<^verbatim>\<open>INSERT INTO contacts (first_name,last_name,email,mobile) VALUES (?,?,?,?)\<close>
  \<^item> \<^verbatim>\<open>UPDATE contacts SET first_name=?, last_name=?, email=?, mobile=? WHERE id=?\<close>
  \<^item> \<^verbatim>\<open>DELETE FROM contacts WHERE id=?\<close>
\<close>

fun executeUpdate :: "request \<Rightarrow> int action" where
  "executeUpdate (InsertRow f l e m) =
     and_then (served (InsertRow f l e m))
       (\<lambda>_ c. (Inr 1,
          write_table
            (table c @ [\<lparr>contact_id = auto_increment c, first_name = f, last_name = l,
                         email = e, mobile = m\<rparr>])
            (c\<lparr>auto_increment := auto_increment c + 1\<rparr>)))"
| "executeUpdate (UpdateRow f l e m i) =
     and_then (served (UpdateRow f l e m i))
       (\<lambda>_ c. (Inr (int (length (filter
                   (\<lambda>r. contact_id r = i \<and> (found_rows c \<or> set_fields f l e m r \<noteq> r))
                   (table c)))),
          write_table
            (map (\<lambda>r. if contact_id r = i then set_fields f l e m r else r) (table c)) c))"
| "executeUpdate (DeleteRow i) =
     and_then (served (DeleteRow i))
       (\<lambda>_ c. (Inr (int (length (filter (\<lambda>r. contact_id r = i) (table c)))),
          write_table (filter (\<lambda>r. contact_id r \<noteq> i) (table c)) c))"
| "executeUpdate rq = and_then (served rq) (\<lambda>_. ret 0)"

text \<open>\<^verbatim>\<open>ORDER BY last_name, first_name\<close>\<close>

definition name_key :: "Connection \<Rightarrow> Contact \<Rightarrow> string \<times> string" where
  "name_key c r = (collation c (last_name r), collation c (first_name r))"

text \<open>
  \<open>executeQuery\<close>: the rows of the result set, or the text of the \<open>sql::SQLException\<close>.
  \<^item> \<^verbatim>\<open>SELECT id, first_name, last_name, email, mobile FROM contacts WHERE id=?\<close>
  \<^item> \<^verbatim>\<open>SELECT id, first_name, last_name, email, mobile FROM contacts ORDER BY last_name, first_name\<close>
  \<^item> \<^verbatim>\<open>SELECT ... FROM contacts WHERE first_name LIKE ? OR last_name LIKE ? OR email LIKE ?
      OR mobile LIKE ? ORDER BY last_name, first_name\<close>
  \<^item> \<^verbatim>\<open>SELECT 1\<close> and \<^verbatim>\<open>SELECT COUNT(*) as count FROM contacts\<close>, whose rows are
    not contacts (the count is read in \<open>get_contact_count\<close>).
\<close>

fun result_rows :: "request \<Rightarrow> Connection \<Rightarrow> Contact list" where
  "result_rows (SelectById i) c = filter (\<lambda>r. contact_id r = i) (table c)"
| "result_rows SelectAll c = sort_key (name_key c) (table c)"
| "result_rows (SelectLike p) c =
     sort_key (name_key c)
       (filter (\<lambda>r. sql_like c (first_name r) p \<or> sql_like c (last_name r) p
                   \<or> sql_like c (email r) p \<or> sql_like c (mobile r) p) (table c))"
| "result_rows rq c = []"

definition executeQuery :: "request \<Rightarrow> Connection \<Rightarrow> string + Contact list" where
  "executeQuery rq c =
     (case refuses c rq of Some msg \<Rightarrow> Inl msg | None \<Rightarrow> Inr (result_rows rq c))"

text \<open>
  \<open>prepareStatement(sql)\<close> and then \<open>executeQuery()\<close>, as every reading method does it.
\<close>

definition query :: "string \<Rightarrow> request \<Rightarrow> Connection \<Rightarrow> string + Contact list" where
  "query sql rq c =
     (case refuses c (Prepare sql) of Some msg \<Rightarrow> Inl msg | None \<Rightarrow> executeQuery rq c)"

text \<open>
  Reading a row of a result set:
  \<^verbatim>\<open>Contact{ res->getInt("id"), res->getString("first_name").c_str(), ... }\<close>
  Each text column goes through \<open>c_str()\<close> into a \<open>std::string\<close>, which ends at the first
  NUL character.
\<close>

definition c_str :: "string \<Rightarrow> string" where
  "c_str s = takeWhile (\<lambda>ch. ch \<noteq> CHR 0x00) s"

definition fetch :: "Contact \<Rightarrow> Contact" where
  "fetch r = \<lparr>contact_id = contact_id r, first_name = c_str (first_name r),
              last_name = c_str (last_name r), email = c_str (email r),
              mobile = c_str (mobile r)\<rparr>"

section \<open>The repository (DB.cpp)\<close>

text \<open>
  \<^verbatim>\<open>void DB::ensure_connection() const {
      if (!conn_ || !conn_->isValid()) throw DBException("Database connection lost");
  }\<close>
\<close>

definition ensure_connection :: "unit action" where
  "ensure_connection c =
     (if \<not> isValid c then throw (DBException ''Database connection lost'') c else ret () c)"

definition insert_sql :: string where
  "insert_sql = ''INSERT INTO contacts (first_name,last_name,email,mobile) VALUES (?,?,?,?)''"

definition update_sql :: string where
  "update_sql = ''UPDATE contacts SET first_name=?, last_name=?, email=?, mobile=? WHERE id=?''"

definition delete_sql :: string where
  "delete_sql = ''DELETE FROM contacts WHERE id=?''"

definition select_by_id_sql :: string where
  "select_by_id_sql = ''SELECT id, first_name, last_name, email, mobile FROM contacts WHERE id=?''"



definition count_sql :: string where
  "count_sql = ''SELECT COUNT(*) as count FROM contacts''"

subsection \<open>\<open>test_connection\<close>\<close>

text \<open>
  \<^verbatim>\<open>try { ensure_connection(); ... conn_->prepareStatement("SELECT 1") ...; stmt->executeQuery();
        return true; }
  catch (const sql::SQLException&) { return false; }\<close>
  The methods that only read leave the connection as it is and are functions of it.
\<close>

definition test_connection :: "Connection \<Rightarrow> exn + bool" where
  "test_connection c =
     (if \<not> isValid c then Inl (DBException ''Database connection lost'')
      else case query ''SELECT 1'' Select1 c of
             Inl msg \<Rightarrow> Inr False
           | Inr res \<Rightarrow> Inr True)"

subsection \<open>\<open>insert_contact\<close>, \<open>update_contact\<close>, \<open>delete_contact\<close>\<close>

definition insert_contact :: "string \<Rightarrow> string \<Rightarrow> string \<Rightarrow> string \<Rightarrow> unit action" where
  "insert_contact first last' email' mobile' =
     (if first = [] \<and> last' = [] then
        throw (DBException ''At least first name or last name must be provided'')
      else if email' \<noteq> [] \<and> \<not> is_valid_email email' then
        throw (DBException ''Invalid email format'')
      else
        catch_sql
          (and_then ensure_connection (\<lambda>_.
           and_then (prepareStatement insert_sql) (\<lambda>_.
           and_then (executeUpdate (InsertRow first last' email' mobile')) (\<lambda>_.
           ret ()))))
          (\<lambda>what. throw (DBException (''Insert error: '' @ what))))"

definition update_contact ::
    "int \<Rightarrow> string \<Rightarrow> string \<Rightarrow> string \<Rightarrow> string \<Rightarrow> unit action" where
  "update_contact i first last' email' mobile' =
     (if first = [] \<and> last' = [] then
        throw (DBException ''At least first name or last name must be provided'')
      else if email' \<noteq> [] \<and> \<not> is_valid_email email' then
        throw (DBException ''Invalid email format'')
      else
        catch_sql
          (and_then ensure_connection (\<lambda>_.
           and_then (prepareStatement update_sql) (\<lambda>_.
           and_then (executeUpdate (UpdateRow first last' email' mobile' i)) (\<lambda>rows.
           if rows = 0 then throw (DBException (''Contact not found with ID: '' @ to_string i))
           else ret ()))))
          (\<lambda>what. throw (DBException (''Update error: '' @ what))))"

definition delete_contact :: "int \<Rightarrow> unit action" where
  "delete_contact i =
     catch_sql
       (and_then ensure_connection (\<lambda>_.
        and_then (prepareStatement delete_sql) (\<lambda>_.
        and_then (executeUpdate (DeleteRow i)) (\<lambda>rows.
        if rows = 0 then throw (DBException (''Contact not found with ID: '' @ to_string i))
        else ret ()))))
       (\<lambda>what. throw (DBException (''Delete error: '' @ what)))"

subsection \<open>\<open>get_contact_by_id\<close>, \<open>get_all_contacts\<close>, \<open>search_contacts\<close>, \<open>get_contact_count\<close>\<close>

text \<open>
  \<^verbatim>\<open>try { ensure_connection(); ...; if (res->next()) { Contact c{...}; return c; } }
  catch (const sql::SQLException& e) { std::cerr << "Query error: " << e.what() << "\n"; }
  return std::nullopt;\<close>
  The line written to \<open>std::cerr\<close> is not part of the model.
\<close>

definition get_contact_by_id :: "int \<Rightarrow> Connection \<Rightarrow> exn + Contact option" where
  "get_contact_by_id i c =
     (if \<not> isValid c then Inl (DBException ''Database connection lost'')
      else case query select_by_id_sql (SelectById i) c of
             Inl what \<Rightarrow> Inr None
           | Inr res \<Rightarrow> (case res of [] \<Rightarrow> Inr None | r # rest \<Rightarrow> Inr (Some (fetch r))))"



text \<open>
  \<^verbatim>\<open>if (res->next()) return res->getInt("count"); ... return 0;\<close>
\<close>

definition get_contact_count :: "Connection \<Rightarrow> exn + int" where
  "get_contact_count c =
     (if \<not> isValid c then Inl (DBException ''Database connection lost'')
      else case query count_sql CountRows c of
             Inl what \<Rightarrow> Inr 0
           | Inr res \<Rightarrow> Inr (int (length (table c))))"

subsection \<open>\<open>import_contacts\<close>\<close>

text \<open>
  \<^verbatim>\<open>for (const auto& c : contacts) { stmt->setString(1, c.first_name); ...; stmt->executeUpdate(); }\<close>
\<close>

fun insert_each :: "Contact list \<Rightarrow> unit action" where
  "insert_each [] = ret ()"
| "insert_each (x # xs) =
     and_then (executeUpdate (InsertRow (first_name x) (last_name x) (email x) (mobile x)))
       (\<lambda>_. insert_each xs)"

text \<open>
  \<^verbatim>\<open>try { ensure_connection(); conn_->setAutoCommit(false); ...prepareStatement(...); for ...;
        conn_->commit(); conn_->setAutoCommit(true); return true; }
  catch (const sql::SQLException& e) {
        conn_->rollback(); conn_->setAutoCommit(true); return false; }\<close>
\<close>

definition import_contacts :: "Contact list \<Rightarrow> bool action" where
  "import_contacts contacts =
     catch_sql
       (and_then ensure_connection (\<lambda>_.
        and_then (setAutoCommit False) (\<lambda>_.
        and_then (prepareStatement insert_sql) (\<lambda>_.
        and_then (insert_each contacts) (\<lambda>_.
        and_then commit (\<lambda>_.
        and_then (setAutoCommit True) (\<lambda>_.
        ret True)))))))
       (\<lambda>what.
        and_then rollback (\<lambda>_.
        and_then (setAutoCommit True) (\<lambda>_.
        ret False)))"

section \<open>The caller's trimming (ContactDialogs.cpp, \<open>ContactDialog::trim\<close>)\<close>

text \<open>
  \<open>ContactDialog::on_ok_clicked\<close> trims every field before it calls \<open>insert_contact\<close> or
  \<open>update_contact\<close>; DB.cpp itself never trims.
  \<open>find_first_not_of\<close> and \<open>find_last_not_of\<close> give a position, or \<open>npos\<close> (here \<open>None\<close>).
\<close>

definition whitespace :: string where
  "whitespace = [CHR '' '', CHR 0x09, CHR 0x0A, CHR 0x0D]"

fun find_first_not_of :: "string \<Rightarrow> string \<Rightarrow> nat option" where
  "find_first_not_of [] chars = None"
| "find_first_not_of (ch # rest) chars =
     (if ch \<notin> set chars then Some 0 else map_option Suc (find_first_not_of rest chars))"

definition find_last_not_of :: "string \<Rightarrow> string \<Rightarrow> nat option" where
  "find_last_not_of str chars =
     map_option (\<lambda>k. length str - 1 - k) (find_first_not_of (rev str) chars)"

text \<open>\<open>str.substr(pos, n)\<close> for \<open>pos \<le> str.size()\<close>, which is how \<open>trim\<close> calls it.\<close>

definition substr :: "string \<Rightarrow> nat \<Rightarrow> nat \<Rightarrow> string" where
  "substr str pos n = take n (drop pos str)"

text \<open>
  \<^verbatim>\<open>if (str.empty()) return str;
  size_t first = str.find_first_not_of(" \t\n\r");
  if (first == std::string::npos) return "";
  size_t last = str.find_last_not_of(" \t\n\r");
  return str.substr(first, (last - first + 1));\<close>
  The count \<open>last - first + 1\<close> is computed in \<open>size_t\<close>, modulo \<open>2^64\<close>; \<open>npos\<close> is
  \<open>2^64 - 1\<close>, so that with \<open>last\<close> \<open>npos\<close> the count would be \<open>2^64 - first\<close> modulo \<open>2^64\<close>.
\<close>

definition trim :: "string \<Rightarrow> string" where
  "trim str =
     (if str = [] then str
      else case find_first_not_of str whitespace of
        None \<Rightarrow> []
      | Some first \<Rightarrow>
          (case find_last_not_of str whitespace of
             Some last' \<Rightarrow> substr str first ((2 ^ 64 + last' - first + 1) mod 2 ^ 64)
           | None \<Rightarrow> substr str first ((2 ^ 64 - first) mod 2 ^ 64)))"

section \<open>Vocabulary of the statements\<close>




section \<open>Example connections\<close>

text \<open>
  Concrete states for the closed theorems below. \<open>healthy\<close> is a server that stores text
  bytewise (the sort key of a value is the value, \<open>LIKE\<close> knows \<open>%\<close> and \<open>_\<close> and compares
  bytes), serves every request and holds two rows.
\<close>

fun binary_like :: "string \<Rightarrow> string \<Rightarrow> bool" where
  "binary_like v [] = (v = [])"
| "binary_like [] (p # ps) = (p = CHR ''%'' \<and> binary_like [] ps)"
| "binary_like (x # xs) (p # ps) =
     (if p = CHR ''%'' then binary_like (x # xs) ps \<or> binary_like xs (p # ps)
      else (p = CHR ''_'' \<or> p = x) \<and> binary_like xs ps)"

definition ada :: Contact where
  "ada = \<lparr>contact_id = 1, first_name = ''Ada'', last_name = ''Lovelace'',
          email = ''ada@example.com'', mobile = ''+44123''\<rparr>"

definition charles :: Contact where
  "charles = \<lparr>contact_id = 2, first_name = ''Charles'', last_name = ''Babbage'',
              email = [], mobile = []\<rparr>"

definition grace :: Contact where
  "grace = \<lparr>contact_id = 0, first_name = ''Grace'', last_name = ''Hopper'',
            email = ''grace@example.org'', mobile = []\<rparr>"

definition alan :: Contact where
  "alan = \<lparr>contact_id = 0, first_name = ''Alan'', last_name = ''Turing'',
           email = [], mobile = replicate 51 CHR ''7''\<rparr>"

definition healthy :: Connection where
  "healthy = \<lparr>isValid = True, auto_commit = True, table = [ada, charles],
              committed = [ada, charles], auto_increment = 3, refuses = (\<lambda>rq. None),
              found_rows = True, collation = (\<lambda>s. s), sql_like = binary_like\<rparr>"

text \<open>The connection after the link is gone: \<open>isValid()\<close> answers false.\<close>

definition lost :: Connection where
  "lost = healthy\<lparr>isValid := False\<rparr>"

text \<open>
  A server that enforces the column widths of the schema in \<open>initialize_schema\<close>
  (\<open>first_name VARCHAR(100)\<close>, \<open>last_name VARCHAR(100)\<close>, \<open>email VARCHAR(255)\<close>,
  \<open>mobile VARCHAR(50)\<close>) on inserts and serves everything else.
\<close>

definition too_long :: "request \<Rightarrow> string option" where
  "too_long rq =
     (case rq of
        InsertRow f l e m \<Rightarrow>
          if 100 < length f \<or> 100 < length l \<or> 255 < length e \<or> 50 < length m
          then Some ''Data too long for column'' else None
      | _ \<Rightarrow> None)"

definition strict :: Connection where
  "strict = healthy\<lparr>refuses := too_long\<rparr>"

text \<open>
  A link that breaks while the row of \<open>alan\<close> is being inserted: that insert and the rollback
  after it end in an \<open>sql::SQLException\<close>.
\<close>

definition breaking :: Connection where
  "breaking =
     healthy\<lparr>refuses := (\<lambda>rq.
       if rq = InsertRow (first_name alan) (last_name alan) (email alan) (mobile alan)
          \<or> rq = Rollback
       then Some ''Lost connection to server during query'' else None)\<rparr>"

text \<open>A server on which every statement fails, and one on which the lookup of id 1 fails.\<close>

definition failing :: Connection where
  "failing = healthy\<lparr>refuses := (\<lambda>rq. Some ''Server has gone away'')\<rparr>"

definition failing_lookup :: Connection where
  "failing_lookup =
     healthy\<lparr>refuses := (\<lambda>rq.
       if rq = SelectById 1 then Some ''Lost connection to server during query'' else None)\<rparr>"



section \<open>Proofs: the allowlist\<close>

text \<open>
  Claim C2. \<open>sanitize_column_name\<close> is total into the allowlist: for every string the
  result is one of id, first_name, last_name, email, mobile; a member of the list is returned
  verbatim and every other string (an injection payload included) yields last_name. So the
  text that reaches the \<open>ORDER BY\<close> of \<open>get_contacts_sorted\<close> is one of these five names.
\<close>

theorem sanitize_column_name_allowlist:
  "sanitize_column_name s \<in> {''id'', ''first_name'', ''last_name'', ''email'', ''mobile''}
   \<and> (s \<in> {''id'', ''first_name'', ''last_name'', ''email'', ''mobile''}
        \<longrightarrow> sanitize_column_name s = s)
   \<and> (s \<notin> {''id'', ''first_name'', ''last_name'', ''email'', ''mobile''}
        \<longrightarrow> sanitize_column_name s = ''last_name'')
   \<and> sanitize_column_name ''email; DROP TABLE x'' = ''last_name''
   \<and> (\<exists>name \<in> {''id'', ''first_name'', ''last_name'', ''email'', ''mobile''}.
        \<exists>dir \<in> {''ASC'', ''DESC''}.
          sorted_query s asc =
            ''SELECT id, first_name, last_name, email, mobile FROM contacts ORDER BY '' @
            name @ '' '' @ dir)"
  by (simp add: sanitize_column_name_def valid_columns_def sorted_query_def)

theorem sanitize_column_name_allowlist_witness:
  "''mobile'' \<in> {''id'', ''first_name'', ''last_name'', ''email'', ''mobile''}
   \<and> sanitize_column_name ''mobile'' = ''mobile''
   \<and> ''1; DELETE FROM contacts'' \<notin> {''id'', ''first_name'', ''last_name'', ''email'', ''mobile''}
   \<and> sanitize_column_name ''1; DELETE FROM contacts'' = ''last_name''
   \<and> sorted_query ''1; DELETE FROM contacts'' False =
       ''SELECT id, first_name, last_name, email, mobile FROM contacts ORDER BY last_name DESC''"
  using sanitize_column_name_allowlist [of "''mobile''"]
    sanitize_column_name_allowlist [of "''1; DELETE FROM contacts''" False]
  by (simp add: sorted_query_def)

section \<open>Proofs: the email check\<close>

subsection \<open>The matcher computes the meaning of the expression\<close>

inductive_simps denotes_Nothing [simp]: "denotes Nothing w"
inductive_simps denotes_Epsilon [simp]: "denotes Epsilon w"
inductive_simps denotes_Bracket [simp]: "denotes (Bracket items) w"
inductive_simps denotes_Lit [simp]: "denotes (Lit c) w"
inductive_simps denotes_Concat: "denotes (Concat r s) w"
inductive_simps denotes_Either [simp]: "denotes (Either r s) w"

lemma nullable_denotes: "nullable r \<longleftrightarrow> denotes r []"
  by (induction r) (auto simp: denotes_Concat intro: d_star_nil)

text \<open>A non-empty match of \<open>Star r\<close> starts with a non-empty match of \<open>r\<close>.\<close>

lemma star_cons_split:
  "denotes q w \<Longrightarrow> q = Star r \<Longrightarrow> w = c # t \<Longrightarrow>
     \<exists>u v. t = u @ v \<and> denotes r (c # u) \<and> denotes (Star r) v"
proof (induction q w arbitrary: t rule: denotes.induct)
  case (d_star_step r' u v)
  show ?case
  proof (cases u)
    case Nil
    with d_star_step show ?thesis by simp
  next
    case (Cons a u')
    with d_star_step.prems d_star_step.hyps show ?thesis by auto
  qed
qed simp_all

lemma denotes_Star_Cons:
  "denotes (Star r) (c # t) \<longleftrightarrow>
     (\<exists>u v. t = u @ v \<and> denotes r (c # u) \<and> denotes (Star r) v)"
proof
  assume "denotes (Star r) (c # t)"
  then show "\<exists>u v. t = u @ v \<and> denotes r (c # u) \<and> denotes (Star r) v"
    using star_cons_split by blast
next
  assume "\<exists>u v. t = u @ v \<and> denotes r (c # u) \<and> denotes (Star r) v"
  then obtain u v where "t = u @ v" "denotes r (c # u)" "denotes (Star r) v" by blast
  then show "denotes (Star r) (c # t)"
    using d_star_step [of r "c # u" v] by simp
qed

lemma deriv_denotes: "denotes (deriv c r) w \<longleftrightarrow> denotes r (c # w)"
proof (induction r arbitrary: w)
  case (Concat r s)
  then show ?case
    by (auto simp: denotes_Concat nullable_denotes Cons_eq_append_conv)
next
  case (Star r)
  then show ?case
    by (simp add: denotes_Concat denotes_Star_Cons)
qed auto

lemma fold_deriv_denotes: "denotes (fold deriv s r) w \<longleftrightarrow> denotes r (s @ w)"
  by (induction s arbitrary: r) (simp_all add: deriv_denotes)

lemma regex_match_denotes: "regex_match s r \<longleftrightarrow> denotes r s"
  by (simp add: regex_match_def nullable_denotes fold_deriv_denotes)

subsection \<open>The meaning of the pattern is the email shape\<close>

lemma denotes_Concat_Bracket:
  "denotes (Concat (Bracket items) s) w \<longleftrightarrow>
     (\<exists>c t. w = c # t \<and> bracket_has items c \<and> denotes s t)"
proof
  assume "denotes (Concat (Bracket items) s) w"
  then show "\<exists>c t. w = c # t \<and> bracket_has items c \<and> denotes s t"
    by (auto simp: denotes_Concat)
next
  assume "\<exists>c t. w = c # t \<and> bracket_has items c \<and> denotes s t"
  then obtain c t where "w = c # t" "bracket_has items c" "denotes s t" by blast
  then show "denotes (Concat (Bracket items) s) w"
    using d_concat [of "Bracket items" "[c]" s t] by (simp add: d_bracket)
qed

lemma denotes_Concat_Lit:
  "denotes (Concat (Lit d) s) w \<longleftrightarrow> (\<exists>t. w = d # t \<and> denotes s t)"
proof
  assume "denotes (Concat (Lit d) s) w"
  then show "\<exists>t. w = d # t \<and> denotes s t"
    by (auto simp: denotes_Concat)
next
  assume "\<exists>t. w = d # t \<and> denotes s t"
  then obtain t where "w = d # t" "denotes s t" by blast
  then show "denotes (Concat (Lit d) s) w"
    using d_concat [of "Lit d" "[d]" s t] by (simp add: d_lit)
qed

lemma denotes_Star_Bracket:
  "denotes (Star (Bracket items)) w \<longleftrightarrow> list_all (bracket_has items) w"
proof (induction w)
  case Nil
  show ?case by (simp add: d_star_nil)
next
  case (Cons c w)
  have "denotes (Star (Bracket items)) (c # w) \<longleftrightarrow>
        bracket_has items c \<and> denotes (Star (Bracket items)) w"
    by (auto simp: denotes_Star_Cons)
  with Cons show ?case by simp
qed

lemma denotes_AtLeast_Bracket:
  "denotes (AtLeast n (Bracket items)) w \<longleftrightarrow>
     n \<le> length w \<and> list_all (bracket_has items) w"
proof (induction n arbitrary: w)
  case 0
  show ?case by (simp add: denotes_Star_Bracket)
next
  case (Suc n)
  show ?case
    by (cases w) (auto simp: denotes_Concat_Bracket Suc)
qed

lemma denotes_Plus_Bracket:
  "denotes (Plus (Bracket items)) w \<longleftrightarrow> w \<noteq> [] \<and> list_all (bracket_has items) w"
  by (cases w) (auto simp: Plus_def denotes_Concat_Bracket denotes_Star_Bracket)

lemma local_class:
  "bracket_has [Range CHR ''a'' CHR ''z'', Range CHR ''A'' CHR ''Z'',
                Range CHR ''0'' CHR ''9'', Single CHR ''.'', Single CHR ''_'',
                Single CHR ''%'', Single CHR ''+'', Single CHR ''-''] = local_char"
  by (auto simp: fun_eq_iff bracket_has_def local_char_def ascii_letter_def ascii_digit_def
      less_eq_char_def)

lemma domain_class:
  "bracket_has [Range CHR ''a'' CHR ''z'', Range CHR ''A'' CHR ''Z'',
                Range CHR ''0'' CHR ''9'', Single CHR ''.'', Single CHR ''-''] = domain_char"
  by (auto simp: fun_eq_iff bracket_has_def domain_char_def ascii_letter_def ascii_digit_def
      less_eq_char_def)

lemma letter_class:
  "bracket_has [Range CHR ''a'' CHR ''z'', Range CHR ''A'' CHR ''Z''] = ascii_letter"
  by (auto simp: fun_eq_iff bracket_has_def ascii_letter_def less_eq_char_def)

lemma denotes_email_pattern: "denotes email_pattern s \<longleftrightarrow> email_shape s"
  unfolding email_pattern_def email_shape_def
  by (simp add: denotes_Concat [of "Plus _"] denotes_Concat_Lit denotes_Plus_Bracket
      denotes_AtLeast_Bracket local_class domain_class letter_class) blast

lemma is_valid_email_shape: "is_valid_email s \<longleftrightarrow> email_shape s"
  by (simp add: is_valid_email_def regex_match_denotes denotes_email_pattern)

text \<open>
  Claim C3. The email check of the write path accepts a string exactly when it is empty or
  has the email shape; the shape is decided on the whole string (the pattern must match all
  of it). In particular \<open>a@b.co\<close> and the empty string pass and \<open>not-an-email\<close> does not.
\<close>

theorem validateEmail_iff_shape:
  "(validateEmail s \<longleftrightarrow> s = [] \<or> email_shape s)
   \<and> (validateEmail s \<longleftrightarrow> s = [] \<or> denotes email_pattern s)
   \<and> validateEmail ''a@b.co''
   \<and> \<not> validateEmail ''not-an-email''
   \<and> validateEmail []"
proof -
  have "is_valid_email ''a@b.co''" by code_simp
  moreover have "\<not> is_valid_email ''not-an-email''" by code_simp
  ultimately show ?thesis
    by (auto simp: validateEmail_def is_valid_email_shape denotes_email_pattern)
qed

theorem validateEmail_iff_shape_witness:
  "validateEmail ''ada@example.com'' \<and> email_shape ''ada@example.com''
   \<and> \<not> validateEmail ''see ada@example.com'' \<and> \<not> email_shape ''see ada@example.com''"
proof -
  have "validateEmail ''ada@example.com''" by code_simp
  moreover have "\<not> validateEmail ''see ada@example.com''" by code_simp
  ultimately show ?thesis
    using validateEmail_iff_shape [of "''ada@example.com''"]
      validateEmail_iff_shape [of "''see ada@example.com''"]
    by simp
qed

section \<open>Proofs: the repository\<close>

lemmas action_defs = ret_def throw_def and_then_def catch_sql_def served_def
  prepareStatement_def ensure_connection_def

lemmas example_defs = healthy_def lost_def strict_def breaking_def failing_def
  failing_lookup_def ada_def charles_def grace_def alan_def

subsection \<open>Writes that match no row\<close>

lemma filter_id_Cons:
  "filter (\<lambda>r. contact_id r = i) rows = x # rest \<Longrightarrow> x \<in> set rows \<and> contact_id x = i"
  by (induction rows) (auto split: if_splits)

lemma absent_id_rows:
  "i \<notin> contact_id ` set rows \<Longrightarrow>
     map (\<lambda>r. if contact_id r = i then g r else r) rows = rows
     \<and> filter (\<lambda>r. contact_id r = i \<and> P r) rows = []
     \<and> filter (\<lambda>r. contact_id r \<noteq> i) rows = rows"
  by (induction rows) auto

lemma executeUpdate_absent:
  assumes "i \<notin> contact_id ` set (table c)"
  shows "refuses c (UpdateRow f l e m i) = None \<Longrightarrow>
           executeUpdate (UpdateRow f l e m i) c = (Inr 0, write_table (table c) c)"
    and "refuses c (DeleteRow i) = None \<Longrightarrow>
           executeUpdate (DeleteRow i) c = (Inr 0, write_table (table c) c)"
  using absent_id_rows [OF assms, of _ "\<lambda>r. True"] absent_id_rows [OF assms]
  by (simp_all add: action_defs)

lemma get_contact_count_write_table:
  "get_contact_count (write_table (table c) c) = get_contact_count c"
  by (simp add: get_contact_count_def query_def executeQuery_def write_table_def
      split: option.split)

text \<open>
  Claim C5. On a valid connection whose server executes the statement, \<open>update_contact\<close>
  with valid fields and \<open>delete_contact\<close> on an id that no row has both end in the
  \<open>DBException\<close> "Contact not found with ID: ..." (zero affected rows are never taken for
  success), and the rows of the table and their count are as before.
\<close>

theorem absent_id_not_found:
  assumes "isValid c" and "i \<notin> contact_id ` set (table c)"
    and "first \<noteq> [] \<or> last' \<noteq> []" and "validateEmail email'"
    and "refuses c (Prepare update_sql) = None"
    and "refuses c (UpdateRow first last' email' mobile' i) = None"
    and "refuses c (Prepare delete_sql) = None" and "refuses c (DeleteRow i) = None"
  shows "fst (update_contact i first last' email' mobile' c) =
           Inl (DBException (''Contact not found with ID: '' @ to_string i))
       \<and> table (snd (update_contact i first last' email' mobile' c)) = table c
       \<and> get_contact_count (snd (update_contact i first last' email' mobile' c)) =
           get_contact_count c
       \<and> fst (delete_contact i c) =
           Inl (DBException (''Contact not found with ID: '' @ to_string i))
       \<and> table (snd (delete_contact i c)) = table c
       \<and> get_contact_count (snd (delete_contact i c)) = get_contact_count c"
proof -
  have names: "\<not> (first = [] \<and> last' = [])" using assms(3) by simp
  have mail: "\<not> (email' \<noteq> [] \<and> \<not> is_valid_email email')"
    using assms(4) by (simp add: validateEmail_def)
  have u: "update_contact i first last' email' mobile' c =
             (Inl (DBException (''Contact not found with ID: '' @ to_string i)),
              write_table (table c) c)"
    using names mail assms(1,5) executeUpdate_absent(1) [OF assms(2,6)]
    by (simp add: update_contact_def action_defs)
  have d: "delete_contact i c =
             (Inl (DBException (''Contact not found with ID: '' @ to_string i)),
              write_table (table c) c)"
    using assms(1,7) executeUpdate_absent(2) [OF assms(2,8)]
    by (simp add: delete_contact_def action_defs)
  show ?thesis
    by (simp add: u d get_contact_count_write_table) (simp add: write_table_def)
qed

theorem absent_id_not_found_witness:
  "fst (update_contact 7 ''Grace'' ''Hopper'' ''grace@example.org'' [] healthy) =
     Inl (DBException ''Contact not found with ID: 7'')
   \<and> table (snd (update_contact 7 ''Grace'' ''Hopper'' ''grace@example.org'' [] healthy)) =
       [ada, charles]
   \<and> fst (delete_contact 7 healthy) = Inl (DBException ''Contact not found with ID: 7'')
   \<and> table (snd (delete_contact 7 healthy)) = [ada, charles]"
proof -
  have "validateEmail ''grace@example.org''" by code_simp
  moreover have "to_string 7 = ''7''" by code_simp
  ultimately show ?thesis
    using absent_id_not_found [of healthy 7 "''Grace''" "''Hopper''" "''grace@example.org''" "[]"]
    by (simp add: example_defs)
qed

subsection \<open>\<open>test_connection\<close>\<close>

text \<open>
  Claim C6, as the code has it. \<open>test_connection\<close> answers true when the round trip
  \<open>SELECT 1\<close> succeeds and false when it ends in an \<open>sql::SQLException\<close>; on a connection
  that is not valid it does not answer but raises the \<open>DBException\<close> of \<open>ensure_connection\<close>.
\<close>

theorem test_connection_outcomes:
  "test_connection c =
     (if isValid c
      then Inr (refuses c (Prepare ''SELECT 1'') = None \<and> refuses c Select1 = None)
      else Inl (DBException ''Database connection lost''))"
  by (auto simp: test_connection_def query_def executeQuery_def split: option.splits)

theorem test_connection_outcomes_witness:
  "test_connection healthy = Inr True \<and> test_connection failing = Inr False"
  using test_connection_outcomes [of healthy] test_connection_outcomes [of failing]
  by (simp add: example_defs)

text \<open>The claim as stated fails on the connection that is lost: the call raises.\<close>

theorem test_connection_raises_counterexample:
  "test_connection lost = Inl (DBException ''Database connection lost'')"
  by (simp add: test_connection_def example_defs)

subsection \<open>\<open>get_contact_by_id\<close>\<close>

lemma first_of_filter:
  "(case filter P rows of [] \<Rightarrow> None | r # rest \<Rightarrow> Some (g r)) = map_option g (find P rows)"
  by (induction rows) simp_all

lemma find_Some_row:
  "find P rows = Some row \<Longrightarrow> row \<in> set rows \<and> P row"
  by (induction rows) (auto split: if_splits)

lemma absent_id_filter:
  "i \<notin> contact_id ` set rows \<Longrightarrow> filter (\<lambda>r. contact_id r = i) rows = []"
  by (induction rows) auto

lemma get_contact_by_id_served:
  assumes "isValid c \<and> refuses c (Prepare select_by_id_sql) = None
       \<and> refuses c (SelectById i) = None"
  shows "get_contact_by_id i c =
      Inr (map_option fetch (find (\<lambda>r. contact_id r = i) (table c)))"
proof -
  have "get_contact_by_id i c =
      Inr (case filter (\<lambda>r. contact_id r = i) (table c) of [] \<Rightarrow> None
           | r # rest \<Rightarrow> Some (fetch r))"
    using assms
    by (simp add: get_contact_by_id_def query_def executeQuery_def split: list.split)
  then show ?thesis by (simp only: first_of_filter)
qed

text \<open>
  Claim C7, as the code has it. A lookup on a connection that is not valid raises the
  \<open>DBException\<close> of \<open>ensure_connection\<close>. On a valid connection the lookup never raises.
  When the server executes the statement, it yields the record of the row with that id (the
  first one in the table, read through \<open>fetch\<close>) if there is one, and no record when no row
  has the id. When the statement ends in an \<open>sql::SQLException\<close> it yields the same "no
  record". A record it yields is always a row of the table with that id.
\<close>

theorem get_contact_by_id_outcomes:
  "(\<not> isValid c \<longrightarrow> get_contact_by_id i c = Inl (DBException ''Database connection lost''))
   \<and> (isValid c \<longrightarrow> (\<exists>found. get_contact_by_id i c = Inr found))
   \<and> (isValid c \<and> refuses c (Prepare select_by_id_sql) = None
       \<and> refuses c (SelectById i) = None \<longrightarrow>
        get_contact_by_id i c =
          Inr (map_option fetch (find (\<lambda>r. contact_id r = i) (table c))))
   \<and> (isValid c \<and> refuses c (Prepare select_by_id_sql) = None
       \<and> refuses c (SelectById i) = None \<and> i \<in> contact_id ` set (table c) \<longrightarrow>
        (\<exists>row \<in> set (table c). contact_id row = i
           \<and> get_contact_by_id i c = Inr (Some (fetch row))))
   \<and> (isValid c \<and> i \<notin> contact_id ` set (table c) \<longrightarrow> get_contact_by_id i c = Inr None)
   \<and> (isValid c
       \<and> (refuses c (Prepare select_by_id_sql) \<noteq> None \<or> refuses c (SelectById i) \<noteq> None)
       \<longrightarrow> get_contact_by_id i c = Inr None)
   \<and> (\<forall>r. get_contact_by_id i c = Inr (Some r) \<longrightarrow>
        (\<exists>row \<in> set (table c). contact_id row = i \<and> r = fetch row))"
proof (intro conjI impI allI)
  assume "\<not> isValid c"
  then show "get_contact_by_id i c = Inl (DBException ''Database connection lost'')"
    by (simp add: get_contact_by_id_def)
next
  assume "isValid c"
  then show "\<exists>found. get_contact_by_id i c = Inr found"
    by (simp add: get_contact_by_id_def split: sum.split list.split)
next
  assume "isValid c \<and> refuses c (Prepare select_by_id_sql) = None
       \<and> refuses c (SelectById i) = None"
  then show "get_contact_by_id i c =
      Inr (map_option fetch (find (\<lambda>r. contact_id r = i) (table c)))"
    by (rule get_contact_by_id_served)
next
  assume h: "isValid c \<and> refuses c (Prepare select_by_id_sql) = None
       \<and> refuses c (SelectById i) = None \<and> i \<in> contact_id ` set (table c)"
  then have "find (\<lambda>r. contact_id r = i) (table c) \<noteq> None"
    by (auto simp: find_None_iff)
  then obtain row where row: "find (\<lambda>r. contact_id r = i) (table c) = Some row"
    by auto
  have "row \<in> set (table c) \<and> contact_id row = i"
    by (rule find_Some_row [OF row])
  moreover from h have "get_contact_by_id i c = Inr (Some (fetch row))"
    by (simp add: get_contact_by_id_served row)
  ultimately show "\<exists>row \<in> set (table c). contact_id row = i
           \<and> get_contact_by_id i c = Inr (Some (fetch row))"
    by blast
next
  assume "isValid c \<and> i \<notin> contact_id ` set (table c)"
  then show "get_contact_by_id i c = Inr None"
    by (simp add: get_contact_by_id_def query_def executeQuery_def absent_id_filter
        split: option.split)
next
  assume "isValid c
       \<and> (refuses c (Prepare select_by_id_sql) \<noteq> None \<or> refuses c (SelectById i) \<noteq> None)"
  then show "get_contact_by_id i c = Inr None"
    by (auto simp: get_contact_by_id_def query_def executeQuery_def split: option.split)
next
  fix r
  assume "get_contact_by_id i c = Inr (Some r)"
  then show "\<exists>row \<in> set (table c). contact_id row = i \<and> r = fetch row"
    by (auto simp: get_contact_by_id_def query_def executeQuery_def
        split: option.splits list.splits if_splits dest!: filter_id_Cons)
qed

theorem get_contact_by_id_outcomes_witness:
  "get_contact_by_id 1 lost = Inl (DBException ''Database connection lost'')
   \<and> get_contact_by_id 9 healthy = Inr None
   \<and> get_contact_by_id 1 failing = Inr None
   \<and> get_contact_by_id 2 healthy = Inr (Some charles)
   \<and> charles \<in> set (table healthy)"
proof -
  note at_lost = get_contact_by_id_outcomes [of lost 1]
  note absent = get_contact_by_id_outcomes [of healthy 9]
  note at_failing = get_contact_by_id_outcomes [of failing 1]
  note present = get_contact_by_id_outcomes [of healthy 2]
  have "\<not> isValid lost" by (simp add: lost_def healthy_def)
  then have a: "get_contact_by_id 1 lost = Inl (DBException ''Database connection lost'')"
    by (rule mp [OF conjunct1 [OF at_lost]])
  have "isValid healthy \<and> 9 \<notin> contact_id ` set (table healthy)"
    by (simp add: healthy_def ada_def charles_def)
  then have b: "get_contact_by_id 9 healthy = Inr None"
    by (rule mp [OF conjunct1 [OF conjunct2 [OF conjunct2 [OF conjunct2 [OF conjunct2
        [OF absent]]]]]])
  have "isValid failing
      \<and> (refuses failing (Prepare select_by_id_sql) \<noteq> None
          \<or> refuses failing (SelectById 1) \<noteq> None)"
    by (simp add: failing_def healthy_def)
  then have c: "get_contact_by_id 1 failing = Inr None"
    by (rule mp [OF conjunct1 [OF conjunct2 [OF conjunct2 [OF conjunct2 [OF conjunct2
        [OF conjunct2 [OF at_failing]]]]]]])
  have "isValid healthy \<and> refuses healthy (Prepare select_by_id_sql) = None
      \<and> refuses healthy (SelectById 2) = None"
    by (simp add: healthy_def)
  then have "get_contact_by_id 2 healthy =
      Inr (map_option fetch (find (\<lambda>r. contact_id r = 2) (table healthy)))"
    by (rule mp [OF conjunct1 [OF conjunct2 [OF conjunct2 [OF present]]]])
  moreover have "find (\<lambda>r. contact_id r = 2) (table healthy) = Some charles"
    by (simp add: healthy_def ada_def) (simp add: charles_def)
  moreover have "fetch charles = charles"
    by (simp add: fetch_def c_str_def charles_def)
  ultimately have d: "get_contact_by_id 2 healthy = Inr (Some charles)" by simp
  have e: "charles \<in> set (table healthy)" by (simp add: healthy_def)
  from a b c d e show ?thesis by (intro conjI)
qed

text \<open>
  The claim as stated fails: the lookup of id 1, which a row has, on a server that fails the
  query gives the same outcome as the lookup of an id that no row has.
\<close>

theorem get_contact_by_id_fault_counterexample:
  "get_contact_by_id 1 healthy = Inr (Some ada)
   \<and> get_contact_by_id 1 failing_lookup = Inr None
   \<and> get_contact_by_id 9 healthy = Inr None"
  by code_simp

subsection \<open>\<open>search_contacts\<close> with the empty query\<close>



subsection \<open>\<open>import_contacts\<close>\<close>











text \<open>
  Claim C10. On a valid connection whose server serves the transaction calls, importing the
  empty sequence returns true and leaves the rows of the table as they are; when nothing was
  uncommitted before the call, the whole connection state is as before.
\<close>

theorem import_contacts_empty:
  assumes "isValid c"
    and "refuses c (SetAutoCommit False) = None" and "refuses c (Prepare insert_sql) = None"
    and "refuses c Commit = None" and "refuses c (SetAutoCommit True) = None"
  shows "fst (import_contacts [] c) = Inr True
       \<and> table (snd (import_contacts [] c)) = table c
       \<and> auto_increment (snd (import_contacts [] c)) = auto_increment c
       \<and> (auto_commit c \<and> committed c = table c \<longrightarrow> snd (import_contacts [] c) = c)"
  using assms
  by (simp add: import_contacts_def setAutoCommit_def commit_def action_defs)

theorem import_contacts_empty_witness:
  "import_contacts [] healthy = (Inr True, healthy)"
  using import_contacts_empty [of healthy]
  by (simp add: example_defs prod_eq_iff)

subsection \<open>Name validation\<close>

lemma find_first_not_of_None:
  "find_first_not_of s chars = None \<longleftrightarrow> set s \<subseteq> set chars"
  by (induction s) auto

lemma find_first_not_of_Some:
  "find_first_not_of s chars = Some k \<Longrightarrow> k < length s"
  by (induction s arbitrary: k) (auto split: if_splits)

lemma find_last_not_of_None:
  "find_last_not_of s chars = None \<longleftrightarrow> set s \<subseteq> set chars"
  by (simp add: find_last_not_of_def find_first_not_of_None)

lemma find_last_not_of_Some:
  "find_last_not_of s chars = Some k \<Longrightarrow> k < length s"
  by (auto simp: find_last_not_of_def dest: find_first_not_of_Some)

text \<open>The first character outside the set is not after the last one.\<close>

lemma find_first_le_last:
  assumes "find_first_not_of s chars = Some i" and "find_last_not_of s chars = Some j"
  shows "i \<le> j"
proof -
  have first_min: "find_first_not_of s chars = Some i \<Longrightarrow> k < i \<Longrightarrow> s ! k \<in> set chars"
    for s i k
  proof (induction s arbitrary: i k)
    case Nil
    then show ?case by simp
  next
    case (Cons ch rest)
    then show ?case by (cases k) (auto split: if_splits)
  qed
  have first_out: "find_first_not_of s chars = Some i \<Longrightarrow> s ! i \<notin> set chars" for s i
    by (induction s arbitrary: i) (auto split: if_splits)
  from assms(2) obtain k where k: "find_first_not_of (rev s) chars = Some k"
    and j: "j = length s - 1 - k"
    by (auto simp: find_last_not_of_def)
  from find_first_not_of_Some [OF k] have klt: "k < length s" by simp
  from first_out [OF k] klt have "s ! j \<notin> set chars"
    by (simp add: j rev_nth)
  with first_min [OF assms(1), of j] show ?thesis
    by (cases "j < i") auto
qed

lemma size_t_count:
  fixes i j M :: nat
  assumes "i \<le> j" and "j - i + 1 < M"
  shows "(M + j - i + 1) mod M = j - i + 1"
proof -
  have "M + j - i + 1 = (j - i + 1) + M" using assms(1) by arith
  then have "(M + j - i + 1) mod M = (j - i + 1) mod M" by (simp only: mod_add_self2)
  also have "\<dots> = j - i + 1" using assms(2) by (rule mod_less)
  finally show ?thesis .
qed

lemma trim_empty_iff:
  assumes "length s < 2 ^ 64"
  shows "trim s = [] \<longleftrightarrow> set s \<subseteq> set whitespace"
proof (cases "find_first_not_of s whitespace")
  case None
  then have "set s \<subseteq> set whitespace"
    by (simp add: find_first_not_of_None)
  with None show ?thesis
    by (simp add: trim_def)
next
  case (Some i)
  then have out: "\<not> set s \<subseteq> set whitespace"
    using find_first_not_of_None [of s whitespace] by simp
  then obtain j where j: "find_last_not_of s whitespace = Some j"
    using find_last_not_of_None [of s whitespace] by (cases "find_last_not_of s whitespace") auto
  from find_first_not_of_Some [OF Some] have i: "i < length s" .
  from find_last_not_of_Some [OF j] have jl: "j < length s" .
  from find_first_le_last [OF Some j] have ij: "i \<le> j" .
  have "j - i + 1 < (2::nat) ^ 64" using assms jl by simp
  then have "((2::nat) ^ 64 + j - i + 1) mod 2 ^ 64 = j - i + 1"
    using ij by (rule size_t_count [rotated])
  then have "trim s = take (j - i + 1) (drop i s)"
    using Some j out by (auto simp: trim_def substr_def)
  with i out show ?thesis by simp
qed

lemma insert_contact_names:
  "fst (insert_contact first last' email' mobile' c) =
     Inl (DBException ''At least first name or last name must be provided'')
   \<longleftrightarrow> first = [] \<and> last' = []"
  by (auto simp: insert_contact_def action_defs split: prod.splits sum.splits exn.splits
      option.splits if_splits)

lemma update_contact_names:
  "fst (update_contact i first last' email' mobile' c) =
     Inl (DBException ''At least first name or last name must be provided'')
   \<longleftrightarrow> first = [] \<and> last' = []"
  by (auto simp: update_contact_def action_defs split: prod.splits sum.splits exn.splits
      option.splits if_splits)

text \<open>
  Claim C4, as the code has it. The name check of the repository does not trim:
  \<open>insert_contact\<close> and \<open>update_contact\<close> end in the \<open>DBException\<close> "At least first name or
  last name must be provided" exactly when both names are the empty string, and in no other
  case. The trimming is the caller's: with the names trimmed as \<open>ContactDialog\<close> passes them,
  that exception arises exactly when both names consist of whitespace (space, tab, LF, CR)
  only.
\<close>

theorem name_validation_without_trim:
  "(fst (insert_contact first last' email' mobile' c) =
      Inl (DBException ''At least first name or last name must be provided'')
    \<longleftrightarrow> first = [] \<and> last' = [])
   \<and> (fst (update_contact i first last' email' mobile' c) =
        Inl (DBException ''At least first name or last name must be provided'')
      \<longleftrightarrow> first = [] \<and> last' = [])
   \<and> (length first < 2 ^ 64 \<and> length last' < 2 ^ 64 \<longrightarrow>
        (fst (insert_contact (trim first) (trim last') email' mobile' c) =
           Inl (DBException ''At least first name or last name must be provided'')
         \<longleftrightarrow> set first \<subseteq> set whitespace \<and> set last' \<subseteq> set whitespace)
        \<and> (fst (update_contact i (trim first) (trim last') email' mobile' c) =
             Inl (DBException ''At least first name or last name must be provided'')
           \<longleftrightarrow> set first \<subseteq> set whitespace \<and> set last' \<subseteq> set whitespace))"
  by (simp add: insert_contact_names update_contact_names trim_empty_iff)

theorem name_validation_without_trim_witness:
  "fst (insert_contact [] [] ''ada@example.com'' ''+44123'' healthy) =
     Inl (DBException ''At least first name or last name must be provided'')
   \<and> fst (update_contact 1 [] ''Byron'' [] [] healthy) \<noteq>
       Inl (DBException ''At least first name or last name must be provided'')
   \<and> trim [CHR '' '', CHR 0x09] = []
   \<and> fst (insert_contact (trim [CHR '' '', CHR 0x09]) (trim '' '') [] [] healthy) =
       Inl (DBException ''At least first name or last name must be provided'')"
proof -
  have "length [CHR '' '', CHR 0x09] < 2 ^ 64 \<and> length '' '' < 2 ^ 64
        \<and> set [CHR '' '', CHR 0x09] \<subseteq> set whitespace \<and> set '' '' \<subseteq> set whitespace"
    by (simp add: whitespace_def)
  moreover have "trim [CHR '' '', CHR 0x09] = []" by code_simp
  ultimately show ?thesis
    using name_validation_without_trim [of "[]" "[]" "''ada@example.com''" "''+44123''" healthy 1]
      name_validation_without_trim [of "[]" "''Byron''" "[]" "[]" healthy 1]
      name_validation_without_trim [of "[CHR '' '', CHR 0x09]" "'' ''" "[]" "[]" healthy 1]
    by simp
qed

text \<open>
  The claim as stated fails: names that are whitespace only pass the repository's check,
  and the row is written.
\<close>

theorem whitespace_names_accepted_counterexample:
  "fst (insert_contact ''  '' [CHR 0x09] [] [] healthy) = Inr ()
   \<and> length (table (snd (insert_contact ''  '' [CHR 0x09] [] [] healthy))) = 3
   \<and> fst (update_contact 1 '' '' [] [] [] healthy) = Inr ()"
  by (simp add: insert_contact_def update_contact_def action_defs write_table_def
      set_fields_def example_defs)

subsection \<open>Insert, then read back\<close>

lemma c_str_id: "CHR 0x00 \<notin> set s \<Longrightarrow> c_str s = s"
  by (auto simp: c_str_def takeWhile_eq_all_conv)

lemma email_shape_no_nul: "email_shape s \<Longrightarrow> CHR 0x00 \<notin> set s"
proof -
  have no: "\<not> local_char (CHR 0x00)" "\<not> domain_char (CHR 0x00)" "\<not> ascii_letter (CHR 0x00)"
    by (simp_all add: local_char_def domain_char_def ascii_letter_def ascii_digit_def)
  have all: "list_all P w \<Longrightarrow> \<not> P (CHR 0x00) \<Longrightarrow> CHR 0x00 \<notin> set w" for P w
    by (auto simp: list_all_iff)
  assume "email_shape s"
  then show ?thesis
    unfolding email_shape_def using no by (auto dest: all)
qed

lemma validateEmail_no_nul: "validateEmail s \<Longrightarrow> CHR 0x00 \<notin> set s"
  by (cases "s = []") (auto simp: validateEmail_def is_valid_email_shape dest: email_shape_no_nul)

text \<open>
  Claim C8, as the code has it. For valid input (names not both empty, email empty or
  well-shaped) without NUL characters, on a valid connection whose server executes the two
  statements, \<open>insert_contact\<close> succeeds and returns nothing; the store gives the new row
  the next id, and \<open>get_contact_by_id\<close> on that id, right after, yields the record of that
  id and the four fields as they were passed.
\<close>

theorem insert_then_get_by_id:
  assumes "isValid c" and "first \<noteq> [] \<or> last' \<noteq> []" and "validateEmail email'"
    and "CHR 0x00 \<notin> set first \<union> set last' \<union> set mobile'"
    and "refuses c (Prepare insert_sql) = None"
    and "refuses c (InsertRow first last' email' mobile') = None"
    and "refuses c (Prepare select_by_id_sql) = None"
    and "refuses c (SelectById (auto_increment c)) = None"
    and "auto_increment c \<notin> contact_id ` set (table c)"
  shows "fst (insert_contact first last' email' mobile' c) = Inr ()
       \<and> table (snd (insert_contact first last' email' mobile' c)) =
           table c @ [\<lparr>contact_id = auto_increment c, first_name = first, last_name = last',
                        email = email', mobile = mobile'\<rparr>]
       \<and> get_contact_by_id (auto_increment c) (snd (insert_contact first last' email' mobile' c)) =
           Inr (Some \<lparr>contact_id = auto_increment c, first_name = first, last_name = last',
                       email = email', mobile = mobile'\<rparr>)"
proof -
  define row where "row = \<lparr>contact_id = auto_increment c, first_name = first,
                            last_name = last', email = email', mobile = mobile'\<rparr>"
  define c' where "c' = write_table (table c @ [row]) (c\<lparr>auto_increment := auto_increment c + 1\<rparr>)"
  have names: "\<not> (first = [] \<and> last' = [])" using assms(2) by simp
  have mail: "\<not> (email' \<noteq> [] \<and> \<not> is_valid_email email')"
    using assms(3) by (simp add: validateEmail_def)
  have ins: "insert_contact first last' email' mobile' c = (Inr (), c')"
    using names mail assms(1,5,6)
    by (simp add: insert_contact_def action_defs c'_def row_def)
  have c': "isValid c'" "refuses c' = refuses c" "table c' = table c @ [row]"
    using assms(1) by (simp_all add: c'_def write_table_def)
  have "filter (\<lambda>r. contact_id r = auto_increment c) (table c) = []"
    using assms(9) by (auto simp: filter_empty_conv image_iff)
  then have found: "filter (\<lambda>r. contact_id r = auto_increment c) (table c') = [row]"
    by (simp add: c' row_def)
  have "fetch row = row"
    using assms(4) validateEmail_no_nul [OF assms(3)]
    by (simp add: fetch_def row_def c_str_id)
  then have get: "get_contact_by_id (auto_increment c) c' = Inr (Some row)"
    using c' assms(7,8) found
    by (simp add: get_contact_by_id_def query_def executeQuery_def)
  show ?thesis
    unfolding ins using get c'(3) by (simp add: row_def)
qed

theorem insert_then_get_by_id_witness:
  "fst (insert_contact ''Grace'' ''Hopper'' ''grace@example.org'' ''+1 555'' healthy) = Inr ()
   \<and> get_contact_by_id 3
        (snd (insert_contact ''Grace'' ''Hopper'' ''grace@example.org'' ''+1 555'' healthy)) =
       Inr (Some \<lparr>contact_id = 3, first_name = ''Grace'', last_name = ''Hopper'',
                   email = ''grace@example.org'', mobile = ''+1 555''\<rparr>)"
proof -
  have "validateEmail ''grace@example.org''" by code_simp
  then show ?thesis
    using insert_then_get_by_id [of healthy "''Grace''" "''Hopper''" "''grace@example.org''"
        "''+1 555''"]
    by (simp add: example_defs)
qed

text \<open>
  The claim as stated fails. \<open>insert_contact\<close> returns nothing: its result is the same on two
  stores that give the new row different ids. And a name with a NUL character in it is
  stored whole but read back cut at the NUL.
\<close>

theorem insert_returns_no_id_counterexample:
  "fst (insert_contact ''Grace'' ''Hopper'' [] [] healthy) = Inr ()
   \<and> fst (insert_contact ''Grace'' ''Hopper'' [] [] (healthy\<lparr>auto_increment := 40\<rparr>)) = Inr ()
   \<and> map contact_id (table (snd (insert_contact ''Grace'' ''Hopper'' [] [] healthy))) =
       [1, 2, 3]
   \<and> map contact_id (table (snd (insert_contact ''Grace'' ''Hopper'' [] []
         (healthy\<lparr>auto_increment := 40\<rparr>)))) = [1, 2, 40]
   \<and> get_contact_by_id 3
        (snd (insert_contact [CHR ''G'', CHR 0x00, CHR ''H''] ''Hopper'' [] [] healthy)) =
       Inr (Some \<lparr>contact_id = 3, first_name = ''G'', last_name = ''Hopper'',
                   email = [], mobile = []\<rparr>)"
  by (simp add: insert_contact_def get_contact_by_id_def query_def executeQuery_def fetch_def
      c_str_def action_defs write_table_def example_defs)

end
